theory Spec2Isabelle
  imports Complex_Main
begin

unbundle bit_operations_syntax

section \<open>Shared vocabulary of the two model variants\<close>

text \<open>
  The repository holds two variants of the torsion fitting model: the hierarchical model of
  \<^verbatim>\<open>torsionfit/model.py\<close> and the legacy model of \<^verbatim>\<open>torsions/TorsionFitModel.py\<close>.
  Both key a dictionary of latent variables by names built from the four atom types of a
  torsion. Python floats are idealised as real numbers; values held by latent variables keep
  the three shapes the source uses: a float scalar, a float vector and an integer.
\<close>

datatype error = KeyError string | IndexError | TypeError | ValueError

datatype val = Scalar real | Vec "real list" | Disc int

type_synonym torsion = "string \<times> string \<times> string \<times> string"

text \<open>\<^verbatim>\<open>p[0] + '_' + p[1] + '_' + p[2] + '_' + p[3]\<close>\<close>

fun torsion_name :: "torsion \<Rightarrow> string" where
  "torsion_name (a, b, c, d) = a @ ''_'' @ b @ ''_'' @ c @ ''_'' @ d"

text \<open>\<^verbatim>\<open>tuple(reversed(t))\<close>\<close>

fun reversed :: "torsion \<Rightarrow> torsion" where
  "reversed (a, b, c, d) = (d, c, b, a)"

text \<open>Python's \<^verbatim>\<open>xs[i]\<close> on a list: negative indices count from the end, an index out of
  range raises IndexError.\<close>

definition py_index :: "'a list \<Rightarrow> int \<Rightarrow> error + 'a" where
  "py_index xs i =
     (if 0 \<le> i \<and> i < int (length xs) then Inr (xs ! nat i)
      else if i < 0 \<and> - int (length xs) \<le> i then Inr (xs ! nat (int (length xs) + i))
      else Inl IndexError)"

text \<open>Dictionary lookup \<^verbatim>\<open>d[k]\<close>, raising KeyError on a missing key.\<close>

definition lookup :: "(string \<rightharpoonup> 'a) \<Rightarrow> string \<Rightarrow> error + 'a" where
  "lookup d k = (case d k of None \<Rightarrow> Inl (KeyError k) | Some v \<Rightarrow> Inr v)"

text \<open>\<^verbatim>\<open>str(m)\<close> for an integer.\<close>

definition digit_char :: "nat \<Rightarrow> char" where
  "digit_char d = ''0123456789'' ! d"

fun str_nat :: "nat \<Rightarrow> string" where
  "str_nat n = (if n < 10 then [digit_char n] else str_nat (n div 10) @ [digit_char (n mod 10)])"

declare str_nat.simps [simp del]

definition str :: "int \<Rightarrow> string" where
  "str m = (if m < 0 then ''-'' @ str_nat (nat (- m)) else str_nat (nat m))"


section \<open>The hierarchical model (torsionfit/model.py)\<close>

subsection \<open>Bitmask table\<close>

text \<open>\<^verbatim>\<open>itertools.product(xs, repeat=n)\<close>: all \<open>n\<close>-tuples over \<open>xs\<close> in lexicographic order, the
  first component varying slowest.\<close>

fun product_repeat :: "'a list \<Rightarrow> nat \<Rightarrow> 'a list list" where
  "product_repeat xs 0 = [[]]"
| "product_repeat xs (Suc n) = concat (map (\<lambda>x. map ((#) x) (product_repeat xs n)) xs)"

text \<open>\<^verbatim>\<open>self.bitmasks\<close>: the list of the 64 tuples of \<^verbatim>\<open>itertools.product((0,1), repeat=6)\<close>.\<close>

definition bitmask_table :: "int list list" where
  "bitmask_table = product_repeat [0, 1] 6"

text \<open>\<^verbatim>\<open>pymc_parameters['{}_K'] * self.bitmasks[pymc_parameters['{}_multiplicity_bitstring']]\<close>:
  the force constant vector times the tuple found at the index the bitstring latent holds.
  The product is elementwise; the constructor builds every vector with six entries, and a
  vector of another length is a shape error (numpy's broadcasting of one-entry arrays is not
  followed). An index that is not an integer is a type error.\<close>

definition vec_mul :: "real list \<Rightarrow> real list \<Rightarrow> error + real list" where
  "vec_mul xs ys = (if length xs = length ys then Inr (map2 (*) xs ys) else Inl ValueError)"

fun mask_K :: "int list list \<Rightarrow> val \<Rightarrow> val \<Rightarrow> error + real list" where
  "mask_K bm (Vec K) (Disc b) =
     (case py_index bm b of Inl e \<Rightarrow> Inl e | Inr tuple \<Rightarrow> vec_mul K (map of_int tuple))"
| "mask_K bm kv bv = Inl TypeError"

subsection \<open>Fragments and latent variables\<close>

text \<open>A fragment as the model reads it: the name of its first residue (the key of its offset
  latent), the number of frames, for every torsion the angles of each frame (one row per frame,
  one entry per dihedral of that type), and the reference energies.\<close>

record fragment =
  residue :: string
  n_frames :: nat
  phis :: "(torsion \<times> real list list) list"
  qm_energy :: "real list"
  delta_energy :: "real list"

text \<open>The nodes of the latent dictionary. A stochastic node carries its current value; a
  \<open>Lambda\<close> node has no value of its own, it is derived from the parent it names. The last two
  constructors are the deterministic energy node and the observed likelihood node.\<close>

datatype lam = Exp | ExpNeg2

datatype node =
    Uniform real real val
  | Normal real string val
  | DiscreteUniform int int val
  | Lambda lam string
  | Deterministic
  | Observed string string nat "real list"

fun is_Lambda :: "node \<Rightarrow> bool" where
  "is_Lambda (Lambda f parent) = True"
| "is_Lambda nd = False"

fun set_value :: "node \<Rightarrow> val \<Rightarrow> node" where
  "set_value (Uniform lo hi v) w = Uniform lo hi w"
| "set_value (Normal mu tau v) w = Normal mu tau w"
| "set_value (DiscreteUniform lo hi v) w = DiscreteUniform lo hi w"
| "set_value nd w = nd"

fun apply_lam :: "lam \<Rightarrow> val \<Rightarrow> val" where
  "apply_lam Exp (Scalar x) = Scalar (exp x)"
| "apply_lam Exp (Vec xs) = Vec (map exp xs)"
| "apply_lam Exp (Disc i) = Scalar (exp (of_int i))"
| "apply_lam ExpNeg2 (Scalar x) = Scalar (exp (- 2 * x))"
| "apply_lam ExpNeg2 (Vec xs) = Vec (map (\<lambda>x. exp (- 2 * x)) xs)"
| "apply_lam ExpNeg2 (Disc i) = Scalar (exp (- 2 * of_int i))"

text \<open>The value a node shows to a function that reads the dictionary.\<close>

fun stored_value :: "node \<Rightarrow> val option" where
  "stored_value (Uniform lo hi v) = Some v"
| "stored_value (Normal mu tau v) = Some v"
| "stored_value (DiscreteUniform lo hi v) = Some v"
| "stored_value nd = None"

definition current_values :: "(string \<rightharpoonup> node) \<Rightarrow> (string \<rightharpoonup> val)" where
  "current_values P name =
     (case P name of
        None \<Rightarrow> None
      | Some (Lambda f parent) \<Rightarrow>
          (case P parent of None \<Rightarrow> None
           | Some nd \<Rightarrow> map_option (apply_lam f) (stored_value nd))
      | Some nd \<Rightarrow> stored_value nd)"

subsection \<open>The deterministic energy function\<close>

text \<open>\<^verbatim>\<open>(1 + np.cos(frag.phis[t][:, np.newaxis]*n[:, np.newaxis])).sum(-1)\<close> with
  \<^verbatim>\<open>n = [1., 2., 3., 4., 5., 6.]\<close>: for every frame a row of six entries, entry \<open>m\<close> being the sum
  of \<open>1 + cos (m * \<theta>)\<close> over the angles of that frame.\<close>

definition cosine_basis :: "real list list \<Rightarrow> real list list" where
  "cosine_basis angles =
     map (\<lambda>frame. map (\<lambda>m. sum_list (map (\<lambda>\<theta>. 1 + cos (\<theta> * m)) frame)) [1, 2, 3, 4, 5, 6]) angles"

definition build_cosines :: "fragment list \<Rightarrow> (torsion \<times> real list list) list list" where
  "build_cosines fs = map (\<lambda>frag. map (\<lambda>(t, angles). (t, cosine_basis angles)) (phis frag)) fs"

text \<open>\<^verbatim>\<open>(K*cosines[i][t]).sum(1)\<close>: one number per frame.\<close>

definition row_sums :: "real list \<Rightarrow> real list list \<Rightarrow> error + real list" where
  "row_sums K C =
     (if list_all (\<lambda>row. length row = length K) C
      then Inr (map (\<lambda>row. sum_list (map2 (*) K row)) C) else Inl ValueError)"

text \<open>\<^verbatim>\<open>Fourier_sum += s\<close>\<close>

definition iadd :: "real list \<Rightarrow> real list \<Rightarrow> error + real list" where
  "iadd acc s = (if length s = length acc then Inr (map2 (+) acc s) else Inl ValueError)"

text \<open>The force constants of one torsion, masked when reversible jump is on. Python evaluates
  the left operand of the product first, so a missing \<open>K\<close> is reported before a missing
  bitstring. The constructor makes every \<open>K\<close> a vector; a \<open>K\<close> of another shape is a type
  error here.\<close>

definition get_K :: "bool \<Rightarrow> int list list \<Rightarrow> (string \<rightharpoonup> val) \<Rightarrow> string \<Rightarrow> error + real list" where
  "get_K rj' bm ps name =
     (case lookup ps (name @ ''_K'') of
        Inl e \<Rightarrow> Inl e
      | Inr kv \<Rightarrow>
          if rj' then
            (case lookup ps (name @ ''_multiplicity_bitstring'') of
               Inl e \<Rightarrow> Inl e
             | Inr bv \<Rightarrow> mask_K bm kv bv)
          else (case kv of Vec K \<Rightarrow> Inr K | _ \<Rightarrow> Inl TypeError))"

text \<open>The loop \<^verbatim>\<open>for t in cosines[i]\<close>, threading the accumulator \<^verbatim>\<open>Fourier_sum\<close>.\<close>

fun fourier_sum ::
  "bool \<Rightarrow> int list list \<Rightarrow> (string \<rightharpoonup> val) \<Rightarrow> (torsion \<times> real list list) list \<Rightarrow> real list
     \<Rightarrow> error + real list" where
  "fourier_sum rj' bm ps [] acc = Inr acc"
| "fourier_sum rj' bm ps ((t, C) # rest) acc =
     (case get_K rj' bm ps (torsion_name t) of
        Inl e \<Rightarrow> Inl e
      | Inr K \<Rightarrow>
         (case row_sums K C of
            Inl e \<Rightarrow> Inl e
          | Inr s \<Rightarrow>
             (case iadd acc s of
                Inl e \<Rightarrow> Inl e
              | Inr acc' \<Rightarrow> fourier_sum rj' bm ps rest acc')))"

text \<open>Python's \<^verbatim>\<open>min\<close> raises on an empty sequence.\<close>

fun py_min :: "real list \<Rightarrow> error + real" where
  "py_min [] = Inl ValueError"
| "py_min (x # xs) = Inr (foldl min x xs)"

text \<open>\<^verbatim>\<open>Fourier_sum_rel += offset\<close>\<close>

fun add_offset :: "real list \<Rightarrow> val \<Rightarrow> error + real list" where
  "add_offset xs (Scalar c) = Inr (map (\<lambda>x. x + c) xs)"
| "add_offset xs (Disc i) = Inr (map (\<lambda>x. x + of_int i) xs)"
| "add_offset xs (Vec cs) = (if length cs = length xs then Inr (map2 (+) xs cs) else Inl ValueError)"

text \<open>The loop \<^verbatim>\<open>for i, mol in enumerate(self.frags)\<close> of \<^verbatim>\<open>torsion_energy\<close>. The source
  computes \<^verbatim>\<open>Fourier_sum_rel\<close> (the accumulator minus its minimum, plus the offset) and then
  appends \<^verbatim>\<open>Fourier_sum\<close> to \<^verbatim>\<open>mm\<close>; the model does the same.\<close>

fun torsion_energy_loop ::
  "bool \<Rightarrow> int list list \<Rightarrow> (torsion \<times> real list list) list list \<Rightarrow> (string \<rightharpoonup> val)
     \<Rightarrow> nat \<Rightarrow> fragment list \<Rightarrow> real list \<Rightarrow> error + real list" where
  "torsion_energy_loop rj' bm cs ps i [] mm = Inr mm"
| "torsion_energy_loop rj' bm cs ps i (mol # rest) mm =
     (if length cs \<le> i then Inl IndexError
      else
       (case fourier_sum rj' bm ps (cs ! i) (replicate (n_frames mol) 0) of
          Inl e \<Rightarrow> Inl e
        | Inr Fourier_sum \<Rightarrow>
           (case py_min Fourier_sum of
              Inl e \<Rightarrow> Inl e
            | Inr lowest \<Rightarrow>
               (case lookup ps (residue mol @ ''_offset'') of
                  Inl e \<Rightarrow> Inl e
                | Inr offset \<Rightarrow>
                   (case add_offset (map (\<lambda>x. x - lowest) Fourier_sum) offset of
                      Inl e \<Rightarrow> Inl e
                    | Inr Fourier_sum_rel \<Rightarrow>
                        torsion_energy_loop rj' bm cs ps (Suc i) rest (mm @ Fourier_sum))))))"

subsection \<open>Construction\<close>

text \<open>The model object. The OpenMM platform and the force field container are opaque to this
  constructor: it stores the first and hands the second to two functions of other modules.\<close>

record 'pf model =
  pymc_parameters :: "string \<rightharpoonup> node"
  frags :: "fragment list"
  platform :: "'pf"
  rj :: bool
  sample_n5 :: bool
  continuous_phase :: bool
  sample_phase :: bool
  parameters_to_optimize :: "torsion list"
  bitmasks :: "int list list"
  cosines :: "(torsion \<times> real list list) list list"

definition torsion_energy :: "'pf model \<Rightarrow> (string \<rightharpoonup> val) \<Rightarrow> error + real list" where
  "torsion_energy self ps =
     torsion_energy_loop (rj self) (bitmasks self) (cosines self) ps 0 (frags self) []"

definition conflict_warning :: string where
  "conflict_warning =
     ''You can't eliminate phase but have continuous phase. Changing continuous phase to False''"

text \<open>One offset latent per fragment.\<close>

definition add_offsets :: "fragment list \<Rightarrow> (string \<rightharpoonup> node) \<Rightarrow> (string \<rightharpoonup> node)" where
  "add_offsets fs P =
     foldl (\<lambda>P frag. P(residue frag @ ''_offset'' \<mapsto> Uniform (- 50) 50 (Scalar 0))) P fs"

text \<open>The four nodes of one torsion; \<^verbatim>\<open>np.log(np.ones(6)*0.01)\<close> and \<^verbatim>\<open>np.zeros(6)\<close> are the
  starting values.\<close>

definition torsion_latents :: "(string \<rightharpoonup> node) \<Rightarrow> torsion \<Rightarrow> (string \<rightharpoonup> node)" where
  "torsion_latents P p =
     (let name = torsion_name p in
      P(''log_sigma_k_'' @ name \<mapsto> Uniform (- 4.6052) 3.453 (Vec (replicate 6 (ln 0.01))),
        ''sigma_k_'' @ name \<mapsto> Lambda Exp (''log_sigma_k_'' @ name),
        ''precision_k_'' @ name \<mapsto> Lambda ExpNeg2 (''log_sigma_k_'' @ name),
        name @ ''_K'' \<mapsto> Normal 0 (''precision_k_'' @ name) (Vec (replicate 6 0))))"

text \<open>\<^verbatim>\<open>multiplicity_bitstrings\<close>: every torsion name is entered once, with value 0.\<close>

fun multiplicity_bitstrings :: "torsion list \<Rightarrow> (string \<times> int) list \<Rightarrow> (string \<times> int) list" where
  "multiplicity_bitstrings [] mb = mb"
| "multiplicity_bitstrings (p # rest) mb =
     multiplicity_bitstrings rest
       (if torsion_name p \<in> set (map fst mb) then mb else mb @ [(torsion_name p, 0)])"

definition add_bitstrings :: "(string \<times> int) list \<Rightarrow> (string \<rightharpoonup> node) \<Rightarrow> (string \<rightharpoonup> node)" where
  "add_bitstrings mb P =
     foldl (\<lambda>P (name, v). P(name @ ''_multiplicity_bitstring'' \<mapsto> DiscreteUniform 0 63 (Disc v))) P mb"

text \<open>The loop of \<^verbatim>\<open>init_random\<close>: every entry that is not a \<open>Lambda\<close> and whose name does not
  start with the eleven characters \<^verbatim>\<open>log_sigma_k\<close> calls \<^verbatim>\<open>random()\<close>. The value drawn is given
  by \<open>draw\<close>, a function of the entry.\<close>

definition randomize :: "(string \<Rightarrow> node \<Rightarrow> val) \<Rightarrow> (string \<rightharpoonup> node) \<Rightarrow> (string \<rightharpoonup> node)" where
  "randomize draw P parameter =
     (case P parameter of
        None \<Rightarrow> None
      | Some nd \<Rightarrow>
          if \<not> is_Lambda nd \<and> take 11 parameter \<noteq> ''log_sigma_k''
          then Some (set_value nd (draw parameter nd)) else Some nd)"

definition add_globals :: "(string \<rightharpoonup> node) \<Rightarrow> (string \<rightharpoonup> node)" where
  "add_globals P =
     P(''log_sigma'' \<mapsto> Uniform (- 10) 3 (Scalar (ln 0.01)),
       ''sigma'' \<mapsto> Lambda Exp ''log_sigma'',
       ''precision'' \<mapsto> Lambda ExpNeg2 ''log_sigma'')"

text \<open>The dictionary when the constructor reaches \<^verbatim>\<open>if init_random:\<close>.\<close>

definition latent_parameters :: "fragment list \<Rightarrow> torsion list \<Rightarrow> bool \<Rightarrow> (string \<rightharpoonup> node)" where
  "latent_parameters fs pto rj' =
     (let P1 = add_offsets fs Map.empty;
          P2 = foldl torsion_latents P1 pto
      in if rj' then add_bitstrings (multiplicity_bitstrings pto []) P2 else P2)"

text \<open>The dictionary when \<^verbatim>\<open>torsion_energy\<close> is decorated: the latents, randomised or not, and
  the three global nodes.\<close>

definition sampled_parameters ::
  "(string \<Rightarrow> node \<Rightarrow> val) \<Rightarrow> fragment list \<Rightarrow> torsion list \<Rightarrow> bool \<Rightarrow> bool \<Rightarrow> (string \<rightharpoonup> node)" where
  "sampled_parameters draw fs pto rj' init_random =
     add_globals (if init_random then randomize draw (latent_parameters fs pto rj')
                  else latent_parameters fs pto rj')"

text \<open>The dictionary as the constructor leaves it.\<close>

definition build_parameters ::
  "(string \<Rightarrow> node \<Rightarrow> val) \<Rightarrow> fragment list \<Rightarrow> torsion list \<Rightarrow> bool \<Rightarrow> bool \<Rightarrow> (string \<rightharpoonup> node)" where
  "build_parameters draw fs pto rj' init_random =
     (sampled_parameters draw fs pto rj' init_random)
       (''torsion_energy'' \<mapsto> Deterministic,
        ''qm_fit'' \<mapsto> Observed ''torsion_energy'' ''precision''
                      (sum_list (map (\<lambda>frag. length (qm_energy frag)) fs))
                      (concat (map delta_energy fs)))"

text \<open>Building the last two nodes. The library evaluates a deterministic node when it is
  built, on the values the dictionary holds at that moment, and an exception of the function
  leaves the constructor. It then evaluates the likelihood of the observed vector under the
  predicted one, which it takes when both have the same length or the predicted one has a
  single entry, and reports as an error otherwise.\<close>

definition build_nodes :: "'pf model \<Rightarrow> (string \<rightharpoonup> node) \<Rightarrow> real list \<Rightarrow> error + real list" where
  "build_nodes self P residual_energy =
     (case torsion_energy self (current_values P) of
        Inl e \<Rightarrow> Inl e
      | Inr mu \<Rightarrow>
          if length mu = length residual_energy \<or> length mu = 1 then Inr mu else Inl ValueError)"

text \<open>\<^verbatim>\<open>TorsionFitModel.__init__\<close>. The two functions of other modules it calls,
  \<^verbatim>\<open>TorsionScan.to_optimize\<close> and \<^verbatim>\<open>par.set_phase_0\<close>, are parameters; either may raise, and
  the second rewrites the container. The result is the model, the container as the constructor
  leaves it, and the warnings emitted; a result \<open>Inl\<close> does not record a warning emitted before
  the exception. \<^verbatim>\<open>if param_to_opt:\<close> is false for \<^verbatim>\<open>None\<close> and for an empty list. A single
  fragment passed in place of a list is wrapped into a list first; here the fragments are a
  list from the start. The local list \<^verbatim>\<open>multiplicities\<close> is never read and is left out, as is
  the log line of the randomisation loop.\<close>

definition choose_torsions ::
  "('prm \<Rightarrow> string option \<Rightarrow> error + torsion list) \<Rightarrow> 'prm \<Rightarrow> string option \<Rightarrow> torsion list option
     \<Rightarrow> error + torsion list" where
  "choose_torsions to_optimize param stream param_to_opt =
     (case param_to_opt of
        None \<Rightarrow> to_optimize param stream
      | Some [] \<Rightarrow> to_optimize param stream
      | Some pto \<Rightarrow> Inr pto)"

definition init ::
  "('prm \<Rightarrow> string option \<Rightarrow> error + torsion list) \<Rightarrow> (torsion list \<Rightarrow> 'prm \<Rightarrow> error + 'prm)
     \<Rightarrow> (string \<Rightarrow> node \<Rightarrow> val)
     \<Rightarrow> 'prm \<Rightarrow> fragment list \<Rightarrow> string option \<Rightarrow> 'pf \<Rightarrow> torsion list option
     \<Rightarrow> bool \<Rightarrow> bool \<Rightarrow> bool \<Rightarrow> bool \<Rightarrow> bool
     \<Rightarrow> error + ('pf model \<times> 'prm \<times> string list)" where
  "init to_optimize set_phase_0 draw param fs stream platform' param_to_opt
        rj' sample_n5' continuous_phase' sample_phase' init_random =
     (case choose_torsions to_optimize param stream param_to_opt of
        Inl e \<Rightarrow> Inl e
      | Inr pto \<Rightarrow>
         (let conflict = (\<not> sample_phase' \<and> continuous_phase');
              warned = (if conflict then [conflict_warning] else [])
          in case (if \<not> sample_phase' then set_phase_0 pto param else Inr param) of
               Inl e \<Rightarrow> Inl e
             | Inr param' \<Rightarrow>
                 (let self = \<lparr> pymc_parameters = build_parameters draw fs pto rj' init_random,
                                frags = fs,
                                platform = platform',
                                rj = rj',
                                sample_n5 = sample_n5',
                                continuous_phase = (if conflict then False else continuous_phase'),
                                sample_phase = sample_phase',
                                parameters_to_optimize = pto,
                                bitmasks = bitmask_table,
                                cosines = build_cosines fs \<rparr>
                  in case build_nodes self (sampled_parameters draw fs pto rj' init_random)
                            (concat (map delta_energy fs)) of
                       Inl e \<Rightarrow> Inl e
                     | Inr mu \<Rightarrow> Inr (self, param', warned))))"

subsection \<open>Encoding and decoding of multiplicity sets\<close>

text \<open>The code has no function of its own for either direction. Decoding is the table: the
  multiplicities \<open>m\<close> whose entry \<open>m - 1\<close> of the tuple at index \<open>b\<close> is 1 (entry \<open>m - 1\<close> multiplies
  the force constant of multiplicity \<open>m\<close>). Encoding is the sum the legacy constructor
  accumulates, \<^verbatim>\<open>2**(m-1)\<close> for every active \<open>m\<close>.\<close>

definition multiplicities_for :: "int \<Rightarrow> error + int list" where
  "multiplicities_for b =
     (case py_index bitmask_table b of
        Inl e \<Rightarrow> Inl e
      | Inr tuple \<Rightarrow> Inr (filter (\<lambda>m. tuple ! nat (m - 1) = 1) [1, 2, 3, 4, 5, 6]))"

definition bitstring_for :: "int list \<Rightarrow> int" where
  "bitstring_for ms = sum_list (map (\<lambda>m. 2 ^ nat (m - 1)) ms)"

definition round_trip :: "int \<Rightarrow> error + int" where
  "round_trip b = (case multiplicities_for b of Inl e \<Rightarrow> Inl e | Inr ms \<Rightarrow> Inr (bitstring_for ms))"


section \<open>The legacy model (torsions/TorsionFitModel.py)\<close>

subsection \<open>The force field container\<close>

text \<open>A term of a torsion: periodicity, force constant and phase. The two numeric fields hold
  whatever the code assigns to them, a latent's value or the integer 0.\<close>

record dihedral_type =
  per :: int
  phi_k :: val
  phase :: val

text \<open>The container maps a torsion key to a list object, and \<^verbatim>\<open>update_param\<close> writes into the
  terms of the list it finds under a key. Two keys may hold one and the same list (the loader
  of the force field library enters a torsion and its reverse that way), so the lists live in
  a store and the dictionary holds their addresses. A term belongs to one list.\<close>

record param_set =
  dihedral_types :: "torsion \<rightharpoonup> nat"
  term_lists :: "nat \<Rightarrow> dihedral_type list"

text \<open>The terms the container shows under a key.\<close>

definition terms_of :: "param_set \<Rightarrow> torsion \<Rightarrow> dihedral_type list option" where
  "terms_of param t = map_option (term_lists param) (dihedral_types param t)"

subsection \<open>Synchronisation\<close>

text \<open>The body of the loop over the terms of one torsion. \<open>values\<close> gives the current value of
  every latent of \<^verbatim>\<open>self.pymc_parameters\<close>. \<^verbatim>\<open>2**(m-1)\<close> is an integer for \<open>m \<ge> 1\<close> and a float
  otherwise, and \<^verbatim>\<open>&\<close> raises a type error on a float. The force constant is written before
  the phase latent is looked up; a result \<open>Inl\<close> does not record what was written before the
  exception.\<close>

definition update_term ::
  "(string \<rightharpoonup> val) \<Rightarrow> string \<Rightarrow> val \<Rightarrow> dihedral_type \<Rightarrow> error + dihedral_type" where
  "update_term values name multiplicity_bitstring d =
     (let m = per d in
      case multiplicity_bitstring of
        Disc b \<Rightarrow>
          if m \<le> 0 then Inl TypeError
          else if b AND 2 ^ nat (m - 1) \<noteq> 0 then
            (if m = 5 then Inr d
             else
              (case lookup values (name @ ''_'' @ str m @ ''_K'') of
                 Inl e \<Rightarrow> Inl e
               | Inr k \<Rightarrow>
                  (case lookup values (name @ ''_'' @ str m @ ''_Phase'') of
                     Inl e \<Rightarrow> Inl e
                   | Inr ph \<Rightarrow> Inr (d\<lparr>phi_k := k, phase := ph\<rparr>))))
          else Inr (d\<lparr>phi_k := Disc 0\<rparr>)
      | _ \<Rightarrow> Inl TypeError)"

text \<open>\<^verbatim>\<open>for i in range(len(param.dihedral_types[p]))\<close>\<close>

fun update_terms ::
  "(string \<rightharpoonup> val) \<Rightarrow> string \<Rightarrow> val \<Rightarrow> dihedral_type list \<Rightarrow> error + dihedral_type list" where
  "update_terms values name bs [] = Inr []"
| "update_terms values name bs (d # ds) =
     (case update_term values name bs d of
        Inl e \<Rightarrow> Inl e
      | Inr d' \<Rightarrow>
         (case update_terms values name bs ds of
            Inl e \<Rightarrow> Inl e
          | Inr ds' \<Rightarrow> Inr (d' # ds')))"

text \<open>The body of the loop over \<^verbatim>\<open>self.parameters_to_optimize\<close>.\<close>

definition update_torsion :: "(string \<rightharpoonup> val) \<Rightarrow> torsion \<Rightarrow> param_set \<Rightarrow> error + param_set" where
  "update_torsion values p param =
     (let name = torsion_name p in
      case lookup values (name @ ''_multiplicity_bitstring'') of
        Inl e \<Rightarrow> Inl e
      | Inr multiplicity_bitstring \<Rightarrow>
         (case dihedral_types param p of
            None \<Rightarrow> Inl (KeyError name)
          | Some a \<Rightarrow>
             (case update_terms values name multiplicity_bitstring (term_lists param a) of
                Inl e \<Rightarrow> Inl e
              | Inr ds \<Rightarrow> Inr (param\<lparr>term_lists := (term_lists param)(a := ds)\<rparr>))))"

text \<open>\<^verbatim>\<open>update_param\<close>; the two attributes of \<^verbatim>\<open>self\<close> it reads are its first two arguments.\<close>

fun update_param :: "(string \<rightharpoonup> val) \<Rightarrow> torsion list \<Rightarrow> param_set \<Rightarrow> error + param_set" where
  "update_param values [] param = Inr param"
| "update_param values (p # rest) param =
     (case update_torsion values p param of
        Inl e \<Rightarrow> Inl e
      | Inr param' \<Rightarrow> update_param values rest param')"

text \<open>\<^verbatim>\<open>mm_potential\<close>, the deterministic node of the legacy model: it synchronises the
  container and then has every fragment recompute its energies from it. \<^verbatim>\<open>compute_energy\<close>
  belongs to the fragment class of another module and is a parameter, together with the reader
  of the energies it stores; it is taken to return and to leave the container alone. The
  result is the energy vector with the container and the fragments as the call leaves them.\<close>

definition mm_potential ::
  "(param_set \<Rightarrow> 'frag \<Rightarrow> 'frag) \<Rightarrow> ('frag \<Rightarrow> real list) \<Rightarrow> (string \<rightharpoonup> val) \<Rightarrow> torsion list
     \<Rightarrow> param_set \<times> 'frag list \<Rightarrow> error + (real list \<times> param_set \<times> 'frag list)" where
  "mm_potential compute_energy mm_energy values pto world =
     (case update_param values pto (fst world) of
        Inl e \<Rightarrow> Inl e
      | Inr param' \<Rightarrow>
          (let fs' = map (compute_energy param') (snd world)
           in Inr (concat (map mm_energy fs'), param', fs')))"

subsection \<open>Initial bitstrings\<close>

text \<open>The part of the legacy constructor that fills \<^verbatim>\<open>multiplicity_bitstrings\<close>: for every
  torsion and every \<open>m\<close> of \<^verbatim>\<open>[1, 2, 3, 4, 6]\<close>, the first term of periodicity \<open>m\<close> adds
  \<^verbatim>\<open>2**(m-1)\<close>. The bitstring latent of a torsion starts at the number found under its name.\<close>

definition legacy_multiplicities :: "int list" where
  "legacy_multiplicities = [1, 2, 3, 4, 6]"

fun add_bits :: "dihedral_type list \<Rightarrow> int list \<Rightarrow> int \<Rightarrow> int" where
  "add_bits ds [] acc = acc"
| "add_bits ds (m # ms) acc =
     add_bits ds ms (if list_ex (\<lambda>d. per d = m) ds then acc + 2 ^ nat (m - 1) else acc)"

fun legacy_multiplicity_bitstrings ::
  "param_set \<Rightarrow> torsion list \<Rightarrow> (string \<rightharpoonup> int) \<Rightarrow> error + (string \<rightharpoonup> int)" where
  "legacy_multiplicity_bitstrings param [] mb = Inr mb"
| "legacy_multiplicity_bitstrings param (p # rest) mb =
     (let name = torsion_name p;
          start = (case mb name of None \<Rightarrow> 0 | Some v \<Rightarrow> v)
      in case dihedral_types param p of
           None \<Rightarrow> Inl (KeyError name)
         | Some a \<Rightarrow>
             legacy_multiplicity_bitstrings param rest
               (mb(name \<mapsto> add_bits (term_lists param a) legacy_multiplicities start)))"

text \<open>The starting bitstring as the specification words it: bit \<open>m - 1\<close> for every multiplicity
  \<open>m\<close> of 1 to 6 that the starting parameter set holds with a nonzero force constant.\<close>

definition nonzero :: "val \<Rightarrow> bool" where
  "nonzero v = (case v of Scalar x \<Rightarrow> x \<noteq> 0 | Disc i \<Rightarrow> i \<noteq> 0 | Vec xs \<Rightarrow> list_ex (\<lambda>x. x \<noteq> 0) xs)"

definition spec_initial_bitstring :: "dihedral_type list \<Rightarrow> int" where
  "spec_initial_bitstring ds =
     sum_list (map (\<lambda>m. if list_ex (\<lambda>d. per d = m \<and> nonzero (phi_k d)) ds then 2 ^ nat (m - 1) else 0)
                   [1, 2, 3, 4, 5, 6])"


section \<open>Notions used in the statements\<close>

text \<open>The latents the legacy constructor creates for a torsion: an integer bitstring of 0 to
  63 and, for every multiplicity of \<^verbatim>\<open>[1, 2, 3, 4, 6]\<close>, a force constant and a phase.\<close>

definition constructed_latents :: "(string \<rightharpoonup> val) \<Rightarrow> torsion \<Rightarrow> bool" where
  "constructed_latents values p =
     (case values (torsion_name p @ ''_multiplicity_bitstring'') of
        Some (Disc b) \<Rightarrow>
          0 \<le> b \<and> b \<le> 63 \<and>
          list_all (\<lambda>m. values (torsion_name p @ ''_'' @ str m @ ''_K'') \<noteq> None \<and>
                        values (torsion_name p @ ''_'' @ str m @ ''_Phase'') \<noteq> None)
                   legacy_multiplicities
      | _ \<Rightarrow> False)"

text \<open>Two runs of a synchronisation step on terms of equal periodicity, \<open>d\<close> to \<open>d'\<close> and \<open>e\<close>
  to \<open>e'\<close>: each field is either overwritten with the same value in both runs or kept in both.\<close>

definition tracks :: "dihedral_type \<Rightarrow> dihedral_type \<Rightarrow> dihedral_type \<Rightarrow> dihedral_type \<Rightarrow> bool" where
  "tracks d d' e e' =
     (per d' = per d \<and> per e' = per e \<and>
      (phi_k d' = phi_k e' \<or> phi_k d' = phi_k d \<and> phi_k e' = phi_k e) \<and>
      (phase d' = phase e' \<or> phase d' = phase d \<and> phase e' = phase e))"

definition tracking :: "param_set \<Rightarrow> param_set \<Rightarrow> param_set \<Rightarrow> param_set \<Rightarrow> bool" where
  "tracking c c' e e' =
     (\<forall>a. \<forall>i<length (term_lists c a).
        tracks (term_lists c a ! i) (term_lists c' a ! i) (term_lists e a ! i) (term_lists e' a ! i))"

text \<open>Two containers with the same keys, the same list under every key and the same
  periodicities in every list.\<close>

definition alike :: "param_set \<Rightarrow> param_set \<Rightarrow> bool" where
  "alike c e =
     (dihedral_types e = dihedral_types c \<and>
      (\<forall>a. map per (term_lists e a) = map per (term_lists c a)))"

text \<open>The names \<^verbatim>\<open>torsion_energy\<close> looks up in the dictionary it is given.\<close>

fun keys_read :: "bool \<Rightarrow> (torsion \<times> real list list) list \<Rightarrow> string list" where
  "keys_read rj' [] = []"
| "keys_read rj' ((t, C) # rest) =
     (torsion_name t @ ''_K'') #
     (if rj' then [torsion_name t @ ''_multiplicity_bitstring''] else []) @ keys_read rj' rest"

fun latents_read_loop ::
  "bool \<Rightarrow> (torsion \<times> real list list) list list \<Rightarrow> nat \<Rightarrow> fragment list \<Rightarrow> string list" where
  "latents_read_loop rj' cs i [] = []"
| "latents_read_loop rj' cs i (mol # rest) =
     (if length cs \<le> i then []
      else keys_read rj' (cs ! i) @ (residue mol @ ''_offset'') # latents_read_loop rj' cs (Suc i) rest)"

definition latents_read :: "'pf model \<Rightarrow> string list" where
  "latents_read self = latents_read_loop (rj self) (cosines self) 0 (frags self)"



section \<open>Concrete inputs\<close>

text \<open>One fragment of two frames with a single torsion, at the angles 0 and \<open>\<pi>\<close>; its cosine
  basis has the rows \<open>[2,2,2,2,2,2]\<close> and \<open>[0,2,0,2,0,2]\<close>.\<close>

definition prl_torsion :: torsion where
  "prl_torsion = (''CG331'', ''CG321'', ''CG321'', ''CG331'')"

definition scan_fragment :: fragment where
  "scan_fragment =
     \<lparr> residue = ''PRL'', n_frames = 2, phis = [(prl_torsion, [[0], [pi]])],
       qm_energy = [0, 1], delta_energy = [0, 1] \<rparr>"

definition scan_values :: "string \<rightharpoonup> val" where
  "scan_values =
     [''PRL_offset'' \<mapsto> Scalar 5,
      ''CG331_CG321_CG321_CG331_K'' \<mapsto> Vec [2, 1, 0, 0, 0, 0]]"

text \<open>The two external functions of the constructor, for a run in which both succeed, and a
  random generator that draws sevens.\<close>

definition no_torsions :: "'prm \<Rightarrow> string option \<Rightarrow> error + torsion list" where
  "no_torsions param stream = Inr []"

definition keep_phases :: "torsion list \<Rightarrow> 'prm \<Rightarrow> error + 'prm" where
  "keep_phases pto param = Inr param"

definition draw_seven :: "string \<Rightarrow> node \<Rightarrow> val" where
  "draw_seven name nd =
     (case nd of
        DiscreteUniform lo hi v \<Rightarrow> Disc 7
      | Normal mu tau v \<Rightarrow> Vec (replicate 6 7)
      | _ \<Rightarrow> Scalar 7)"

text \<open>The model the constructor builds for that fragment with every option off.\<close>

definition scan_model :: "unit model" where
  "scan_model =
     \<lparr> pymc_parameters = build_parameters draw_seven [scan_fragment] [prl_torsion] False False,
       frags = [scan_fragment], platform = (), rj = False, sample_n5 = False,
       continuous_phase = False, sample_phase = False,
       parameters_to_optimize = [prl_torsion], bitmasks = bitmask_table,
       cosines = [[(prl_torsion, [[2, 2, 2, 2, 2, 2], [0, 2, 0, 2, 0, 2]])]] \<rparr>"




definition og_fragment :: fragment where
  "og_fragment =
     \<lparr> residue = ''PRL'', n_frames = 2,
       phis = [((''OG311'', ''CG321'', ''CG321'', ''CG331''), [[0], [pi]])],
       qm_energy = [0, 1], delta_energy = [0, 1] \<rparr>"



text \<open>The model built for the scan of the first torsion of the container below, with
  reversible jump and phase sampling on and random initialisation off.\<close>

definition og_model :: "unit model" where
  "og_model =
     \<lparr> pymc_parameters =
         build_parameters draw_seven [og_fragment] [(''OG311'', ''CG321'', ''CG321'', ''CG331'')]
           True False,
       frags = [og_fragment], platform = (), rj = True, sample_n5 = False,
       continuous_phase = False, sample_phase = True,
       parameters_to_optimize = [(''OG311'', ''CG321'', ''CG321'', ''CG331'')],
       bitmasks = bitmask_table,
       cosines = [[((''OG311'', ''CG321'', ''CG321'', ''CG331''),
                    [[2, 2, 2, 2, 2, 2], [0, 2, 0, 2, 0, 2]])]] \<rparr>"

text \<open>A container for the legacy model. The first torsion and its reverse share one list; the
  second torsion and its reverse have a list each, with the same terms. The latents are those
  of a legacy model of the two torsions: the first has the bitstring 18 (multiplicities 2 and
  5), the second the bitstring 1 (multiplicity 1, for which the container has no term).\<close>

definition shared_torsion :: torsion where
  "shared_torsion = (''OG311'', ''CG321'', ''CG321'', ''CG331'')"

definition split_torsion :: torsion where
  "split_torsion = (''HGA2'', ''CG321'', ''CG321'', ''CG331'')"

definition torsion_values :: "string \<Rightarrow> int \<Rightarrow> real \<Rightarrow> int \<Rightarrow> (string \<rightharpoonup> val)" where
  "torsion_values name b k ph =
     map_of ((name @ ''_multiplicity_bitstring'', Disc b) #
             concat (map (\<lambda>m. [(name @ ''_'' @ str m @ ''_K'', Scalar k),
                               (name @ ''_'' @ str m @ ''_Phase'', Disc ph)]) legacy_multiplicities))"

definition legacy_values :: "string \<rightharpoonup> val" where
  "legacy_values =
     torsion_values ''OG311_CG321_CG321_CG331'' 18 0.7 1 ++
     torsion_values ''HGA2_CG321_CG321_CG331'' 1 0.9 0"

definition legacy_param :: param_set where
  "legacy_param =
     \<lparr> dihedral_types =
         [shared_torsion \<mapsto> 0, reversed shared_torsion \<mapsto> 0,
          split_torsion \<mapsto> 1, reversed split_torsion \<mapsto> 2],
       term_lists = (\<lambda>a. [])
         (0 := [\<lparr>per = 2, phi_k = Scalar 1.5, phase = Scalar 0\<rparr>,
                \<lparr>per = 5, phi_k = Scalar 0.3, phase = Scalar 0\<rparr>],
          1 := [\<lparr>per = 2, phi_k = Scalar 0.4, phase = Scalar 0\<rparr>,
                \<lparr>per = 3, phi_k = Scalar 0.2, phase = Scalar 0\<rparr>],
          2 := [\<lparr>per = 2, phi_k = Scalar 0.4, phase = Scalar 0\<rparr>,
                \<lparr>per = 3, phi_k = Scalar 0.2, phase = Scalar 0\<rparr>]) \<rparr>"

text \<open>The same container after one synchronisation.\<close>

definition synced_param :: param_set where
  "synced_param =
     legacy_param\<lparr> term_lists := (term_lists legacy_param)
         (0 := [\<lparr>per = 2, phi_k = Scalar 0.7, phase = Disc 1\<rparr>,
                \<lparr>per = 5, phi_k = Scalar 0.3, phase = Scalar 0\<rparr>],
          1 := [\<lparr>per = 2, phi_k = Disc 0, phase = Scalar 0\<rparr>,
                \<lparr>per = 3, phi_k = Disc 0, phase = Scalar 0\<rparr>]) \<rparr>"

text \<open>A stand-in for the energy computation of a fragment: the force constants of the list at
  address 0, read as numbers. A fragment is the list of energies it stores.\<close>

definition stored_energy :: "param_set \<Rightarrow> real list \<Rightarrow> real list" where
  "stored_energy param frag =
     map (\<lambda>d. case phi_k d of Scalar x \<Rightarrow> x | Disc i \<Rightarrow> of_int i | Vec xs \<Rightarrow> sum_list xs)
         (term_lists param 0)"


section \<open>The bitmask table\<close>

lemma bitmask_table_length: "length bitmask_table = 64"
  by code_simp

lemma bitmask_table_entries:
  "\<forall>b\<in>set [0..<64]. length (bitmask_table ! b) = 6 \<and>
     (\<forall>j\<in>set [0..<6]. bitmask_table ! b ! j = (if bit b (5 - j) then 1 else 0))"
  by code_simp

lemma bitmask_table_entry:
  assumes "b < 64" and "j < 6"
  shows "bitmask_table ! b ! j = (if bit b (5 - j) then 1 else 0)"
    and "length (bitmask_table ! b) = 6"
  using bitmask_table_entries assms by auto

text \<open>What the table does to a force constant vector: the tuple at index \<open>b\<close> is the binary
  numeral of \<open>b\<close> read from the most significant bit, so the entry of multiplicity \<open>m\<close> is kept
  exactly when bit \<open>6 - m\<close> of \<open>b\<close> is set.\<close>

lemma mask_K_bit_order:
  assumes "0 \<le> b" and "b \<le> 63" and "length K = 6" and "1 \<le> m" and "m \<le> 6"
  shows "\<exists>v. mask_K bitmask_table (Vec K) (Disc b) = Inr v \<and> length v = 6 \<and>
            v ! (m - 1) = (if bit b (6 - m) then K ! (m - 1) else 0)"
proof -
  have nb: "nat b < 64"
    using assms by auto
  have idx: "py_index bitmask_table b = Inr (bitmask_table ! nat b)"
    using assms by (simp add: py_index_def bitmask_table_length)
  have len: "length (bitmask_table ! nat b) = 6"
    using bitmask_table_entry(2) [OF nb, of 0] by simp
  have ent: "bitmask_table ! nat b ! (m - 1) = (if bit (nat b) (5 - (m - 1)) then 1 else 0)"
    using bitmask_table_entry(1) [OF nb, of "m - 1"] assms by simp
  have bb: "bit (nat b) (5 - (m - 1)) = bit b (6 - m)"
    using assms by (simp add: bit_nat_iff)
  show ?thesis
    using assms idx len ent bb by (auto simp: vec_mul_def)
qed

text \<open>
  \<^bold>\<open>C2\<close>. The specification has the masked vector keep the force constant of multiplicity \<open>m\<close>
  exactly when bit \<open>m - 1\<close> of the bitstring is set, so that the bitstring \<open>0b000011\<close> keeps the
  first two entries and clears the third. The code run on the bitstring 3 and the vector
  \<open>[1, 2, 3, 4, 5, 6]\<close> clears the first four entries and keeps the last two, those of the
  multiplicities 5 and 6.
\<close>

theorem mask_K_bitstring_3:
  "mask_K bitmask_table (Vec [1, 2, 3, 4, 5, 6]) (Disc 3) = Inr [0, 0, 0, 0, 5, 6]"
  by code_simp

lemma round_trip_table:
  "\<forall>b\<in>set [0..<64].
     (case round_trip (int b) of
        Inl e \<Rightarrow> False
      | Inr r \<Rightarrow> 0 \<le> r \<and> r \<le> 63 \<and> list_all (\<lambda>i. bit r i = bit b (5 - i)) [0..<6])"
  by code_simp

text \<open>Decoding through the table and encoding with \<^verbatim>\<open>2**(m-1)\<close> reverses the six bits.\<close>

lemma round_trip_reverses_bits:
  assumes "0 \<le> b" and "b \<le> 63" and "i < 6"
  shows "\<exists>r. round_trip b = Inr r \<and> 0 \<le> r \<and> r \<le> 63 \<and> bit r i = bit b (5 - i)"
proof -
  have "nat b \<in> set [0..<64]"
    using assms by auto
  with round_trip_table
  have "case round_trip (int (nat b)) of
          Inl e \<Rightarrow> False
        | Inr r \<Rightarrow> 0 \<le> r \<and> r \<le> 63 \<and> list_all (\<lambda>i. bit r i = bit (nat b) (5 - i)) [0..<6]"
    by blast
  moreover have "int (nat b) = b"
    using assms by simp
  ultimately show ?thesis
    using assms by (auto split: sum.splits simp: list_all_iff bit_nat_iff)
qed

text \<open>
  \<^bold>\<open>C3\<close>. The specification has the round trip return every bitstring of 0 to 63 unchanged.
  Decoding the bitstring 1 through the table gives the multiplicity 6, which the encoding
  turns into 32.
\<close>

theorem round_trip_of_1:
  "multiplicities_for 1 = Inr [6] \<and> bitstring_for [6] = 32 \<and> round_trip 1 = Inr 32"
  by code_simp


section \<open>The deterministic energy function\<close>

lemma scan_cosines:
  "build_cosines [scan_fragment] = [[(prl_torsion, [[2, 2, 2, 2, 2, 2], [0, 2, 0, 2, 0, 2]])]]"
  by (simp add: build_cosines_def scan_fragment_def cosine_basis_def)

text \<open>When the constructor builds the last two nodes for the scan, the force constants are
  still 0 and \<^verbatim>\<open>torsion_energy\<close> returns \<open>[0, 0]\<close>, of the length of the observed vector.\<close>

lemma scan_nodes:
  "build_nodes scan_model (sampled_parameters draw_seven [scan_fragment] [prl_torsion] False False)
     (delta_energy scan_fragment) = Inr [0, 0]"
  by (simp add: build_nodes_def torsion_energy_def scan_model_def current_values_def
      sampled_parameters_def add_globals_def latent_parameters_def add_offsets_def
      torsion_latents_def get_K_def lookup_def row_sums_def iadd_def numeral_eq_Suc
      scan_fragment_def prl_torsion_def Let_def)

lemma scan_model_built:
  "init no_torsions keep_phases draw_seven () [scan_fragment] None () (Some [prl_torsion])
     False False False False False = Inr (scan_model, (), [])"
  by (simp add: init_def choose_torsions_def keep_phases_def Let_def scan_cosines
      scan_model_def [symmetric] scan_nodes)

text \<open>
  \<^bold>\<open>C1\<close>. The specification has \<^verbatim>\<open>torsion_energy\<close> return, for every fragment, the accumulator
  minus its own minimum plus the offset of the fragment, so that with one fragment and the
  offset 5 the smallest entry returned is 5. The model built for the fragment of two frames,
  read with the offset 5 and the force constants \<open>[2, 1, 0, 0, 0, 0]\<close>, has the accumulator
  \<open>[6, 2]\<close>, and that is what the function returns: the minimum 2 is not subtracted and the
  offset is not added.
\<close>

theorem torsion_energy_returns_raw_sum:
  "init no_torsions keep_phases draw_seven () [scan_fragment] None () (Some [prl_torsion])
     False False False False False = Inr (scan_model, (), []) \<and>
   torsion_energy scan_model scan_values = Inr [6, 2]"
proof -
  have "torsion_energy scan_model scan_values = Inr [6, 2]"
    by (simp add: torsion_energy_def scan_model_def scan_values_def scan_fragment_def
        prl_torsion_def get_K_def lookup_def row_sums_def iadd_def numeral_2_eq_2)
  with scan_model_built show ?thesis
    by simp
qed

text \<open>The function reads nothing but the latents listed by \<open>latents_read\<close>: two dictionaries
  that agree on them give the same result, whatever else they hold.\<close>

lemma get_K_agree:
  assumes "ps (name @ ''_K'') = ps' (name @ ''_K'')"
    and "rj' \<Longrightarrow> ps (name @ ''_multiplicity_bitstring'') = ps' (name @ ''_multiplicity_bitstring'')"
  shows "get_K rj' bm ps name = get_K rj' bm ps' name"
proof -
  have a: "lookup ps (name @ ''_K'') = lookup ps' (name @ ''_K'')"
    using assms(1) by (simp add: lookup_def)
  show ?thesis
  proof (cases rj')
    case True
    then have "lookup ps (name @ ''_multiplicity_bitstring'') = lookup ps' (name @ ''_multiplicity_bitstring'')"
      using assms(2) by (simp add: lookup_def)
    with a True show ?thesis by (simp add: get_K_def split: sum.splits)
  next
    case False
    with a show ?thesis by (simp add: get_K_def split: sum.splits)
  qed
qed

lemma fourier_sum_agree:
  assumes "\<forall>k\<in>set (keys_read rj' cs). ps k = ps' k"
  shows "fourier_sum rj' bm ps cs acc = fourier_sum rj' bm ps' cs acc"
  using assms
proof (induction cs arbitrary: acc)
  case Nil
  then show ?case by simp
next
  case (Cons tc cs)
  obtain t C where tc: "tc = (t, C)" by (cases tc)
  have "get_K rj' bm ps (torsion_name t) = get_K rj' bm ps' (torsion_name t)"
    using Cons.prems tc by (intro get_K_agree) auto
  moreover have "\<forall>k\<in>set (keys_read rj' cs). ps k = ps' k"
    using Cons.prems tc by auto
  ultimately show ?case
    using Cons.IH tc by (simp split: sum.splits)
qed

lemma torsion_energy_loop_agree:
  assumes "\<forall>k\<in>set (latents_read_loop rj' cs i fs). ps k = ps' k"
  shows "torsion_energy_loop rj' bm cs ps i fs mm = torsion_energy_loop rj' bm cs ps' i fs mm"
  using assms
proof (induction fs arbitrary: i mm)
  case Nil
  then show ?case by simp
next
  case (Cons mol fs)
  show ?case
  proof (cases "length cs \<le> i")
    case True
    then show ?thesis by simp
  next
    case False
    have a: "fourier_sum rj' bm ps (cs ! i) (replicate (n_frames mol) 0) =
        fourier_sum rj' bm ps' (cs ! i) (replicate (n_frames mol) 0)"
      using Cons.prems False by (intro fourier_sum_agree) auto
    have b: "lookup ps (residue mol @ ''_offset'') = lookup ps' (residue mol @ ''_offset'')"
      using Cons.prems False by (simp add: lookup_def)
    have c: "\<forall>k\<in>set (latents_read_loop rj' cs (Suc i) fs). ps k = ps' k"
      using Cons.prems False by auto
    show ?thesis
      using False a b Cons.IH [OF c] by (simp split: sum.splits)
  qed
qed

lemma torsion_energy_agree:
  "\<forall>k\<in>set (latents_read self). ps k = ps' k \<Longrightarrow> torsion_energy self ps = torsion_energy self ps'"
  unfolding torsion_energy_def latents_read_def by (rule torsion_energy_loop_agree)


section \<open>Synchronisation of the legacy model\<close>

lemma str_digits [simp]:
  "str 1 = ''1''" "str 2 = ''2''" "str 3 = ''3''" "str 4 = ''4''" "str 5 = ''5''" "str 6 = ''6''"
  by (simp_all add: str_def str_nat.simps digit_char_def)

lemma update_term_per: "update_term values name bs d = Inr d' \<Longrightarrow> per d' = per d"
  by (auto simp: update_term_def Let_def split: val.splits if_splits sum.splits)

lemma update_terms_length: "update_terms values name bs ds = Inr ds' \<Longrightarrow> length ds' = length ds"
  by (induction ds arbitrary: ds') (auto split: sum.splits)


lemma update_terms_per: "update_terms values name bs ds = Inr ds' \<Longrightarrow> map per ds' = map per ds"
  by (induction ds arbitrary: ds') (auto split: sum.splits dest: update_term_per)

lemma update_torsion_keys: "update_torsion values p param = Inr param' \<Longrightarrow> dihedral_types param' = dihedral_types param"
  by (auto simp: update_torsion_def Let_def split: sum.splits option.splits)

lemma update_param_keys: "update_param values pto param = Inr param' \<Longrightarrow> dihedral_types param' = dihedral_types param"
  by (induction pto arbitrary: param) (auto split: sum.splits dest: update_torsion_keys)

lemma update_torsion_frame:
  "update_torsion values p param = Inr param' \<Longrightarrow> dihedral_types param p \<noteq> Some a \<Longrightarrow>
     term_lists param' a = term_lists param a"
  by (auto simp: update_torsion_def Let_def split: sum.splits option.splits)

lemma update_param_frame:
  "update_param values pto param = Inr param' \<Longrightarrow> \<forall>p\<in>set pto. dihedral_types param p \<noteq> Some a \<Longrightarrow>
     term_lists param' a = term_lists param a"
proof (induction pto arbitrary: param)
  case Nil
  then show ?case by simp
next
  case (Cons p pto)
  from Cons.prems(1) obtain mid where
    mid: "update_torsion values p param = Inr mid" and rest: "update_param values pto mid = Inr param'"
    by (auto split: sum.splits)
  have "dihedral_types mid = dihedral_types param" using mid by (rule update_torsion_keys)
  with Cons.prems(2) have "\<forall>q\<in>set pto. dihedral_types mid q \<noteq> Some a" by simp
  with Cons.IH rest have "term_lists param' a = term_lists mid a" by blast
  moreover have "term_lists mid a = term_lists param a"
    using mid Cons.prems(2) by (auto intro: update_torsion_frame)
  ultimately show ?case by simp
qed

lemma legacy_sync:
  "update_param legacy_values [shared_torsion, split_torsion] legacy_param = Inr synced_param"
  by (simp add: update_torsion_def update_term_def lookup_def legacy_values_def torsion_values_def
      legacy_multiplicities_def legacy_param_def synced_param_def shared_torsion_def
      split_torsion_def map_add_def fun_upd_twist)







subsection \<open>A set bit without a term\<close>

lemma update_torsion_alike:
  assumes "update_torsion values p c = Inr c'"
  shows "alike c c'"
  using assms
  by (auto simp: update_torsion_def Let_def alike_def split: sum.splits option.splits dest: update_terms_per)

lemma and_small_power:
  assumes "0 \<le> (b::int)" and "b \<le> 63" and "b AND 2 ^ n \<noteq> 0"
  shows "n < 6"
proof (rule ccontr)
  assume "\<not> n < 6"
  then have "6 \<le> n" by simp
  then have "(2::int) ^ 6 \<le> 2 ^ n" by (rule power_increasing) simp
  then have "b < 2 ^ n" using assms(2) by simp
  then have "b div 2 ^ n = 0" using assms(1) by simp
  then have "\<not> bit b n" by (simp add: bit_iff_odd)
  then have "b AND 2 ^ n = 0" by (simp add: and_exp_eq_0_iff_not_bit)
  with assms(3) show False by simp
qed

lemma update_term_succeeds:
  assumes "constructed_latents values p" and "1 \<le> per d"
    and "values (torsion_name p @ ''_multiplicity_bitstring'') = Some bs"
  shows "\<exists>d'. update_term values (torsion_name p) bs d = Inr d'"
proof -
  from assms(1,3) obtain b where bs: "bs = Disc b" and b: "0 \<le> b" "b \<le> 63"
    and all: "list_all (\<lambda>m. values (torsion_name p @ ''_'' @ str m @ ''_K'') \<noteq> None \<and>
                        values (torsion_name p @ ''_'' @ str m @ ''_Phase'') \<noteq> None) legacy_multiplicities"
    by (auto simp: constructed_latents_def split: option.splits val.splits)
  show ?thesis
  proof (cases "b AND 2 ^ nat (per d - 1) \<noteq> 0")
    case False
    then show ?thesis using bs assms(2) by (simp add: update_term_def Let_def)
  next
    case True
    with b have "nat (per d - 1) < 6" by (rule and_small_power)
    with assms(2) have "per d \<in> {1, 2, 3, 4, 5, 6}" by auto
    then consider "per d = 5" | "per d \<in> set legacy_multiplicities"
      by (auto simp: legacy_multiplicities_def)
    then show ?thesis
    proof cases
      case 1
      then show ?thesis using bs True by (simp add: update_term_def Let_def)
    next
      case 2
      with all have "values (torsion_name p @ ''_'' @ str (per d) @ ''_K'') \<noteq> None"
        "values (torsion_name p @ ''_'' @ str (per d) @ ''_Phase'') \<noteq> None"
        by (auto simp: list_all_iff)
      then show ?thesis using bs assms(2)
        by (auto simp: update_term_def Let_def lookup_def)
    qed
  qed
qed

lemma update_terms_succeeds:
  assumes "constructed_latents values p" and "\<forall>d\<in>set ds. 1 \<le> per d"
    and "values (torsion_name p @ ''_multiplicity_bitstring'') = Some bs"
  shows "\<exists>ds'. update_terms values (torsion_name p) bs ds = Inr ds'"
  using assms(2)
proof (induction ds)
  case Nil
  then show ?case by simp
next
  case (Cons d ds)
  then obtain ds' where "update_terms values (torsion_name p) bs ds = Inr ds'" by auto
  moreover obtain d' where "update_term values (torsion_name p) bs d = Inr d'"
    using update_term_succeeds [OF assms(1) _ assms(3), of d] Cons.prems by auto
  ultimately show ?case by simp
qed

lemma update_torsion_succeeds:
  assumes "constructed_latents values p" and "dihedral_types param p \<noteq> None"
    and "\<forall>a. \<forall>d\<in>set (term_lists param a). 1 \<le> per d"
  shows "\<exists>param'. update_torsion values p param = Inr param'"
proof -
  from assms(1) obtain bs where bs: "values (torsion_name p @ ''_multiplicity_bitstring'') = Some bs"
    by (auto simp: constructed_latents_def split: option.splits)
  from assms(2) obtain a where a: "dihedral_types param p = Some a" by auto
  from update_terms_succeeds [OF assms(1) _ bs, of "term_lists param a"] assms(3)
  obtain ds where "update_terms values (torsion_name p) bs (term_lists param a) = Inr ds" by auto
  then show ?thesis using bs a by (simp add: update_torsion_def Let_def lookup_def)
qed

text \<open>
  \<^bold>\<open>C4\<close>, as the code has it. \<^verbatim>\<open>update_param\<close> visits the terms the container holds and
  nothing else. With the latents the constructor creates, an entry for every optimized torsion
  and positive periodicities, the call returns: a bit set for a multiplicity that has no term
  raises nothing, that multiplicity is passed over, and the container keeps its keys and the
  periodicities of its terms, so no term is added for it.
\<close>

theorem update_param_skips_missing_terms:
  assumes "\<forall>p\<in>set pto. constructed_latents values p \<and> dihedral_types param p \<noteq> None"
    and "\<forall>a. \<forall>d\<in>set (term_lists param a). 1 \<le> per d"
  shows "\<exists>param'. update_param values pto param = Inr param' \<and>
           dihedral_types param' = dihedral_types param \<and>
           (\<forall>a. map per (term_lists param' a) = map per (term_lists param a))"
  using assms
proof (induction pto arbitrary: param)
  case Nil
  then show ?case by simp
next
  case (Cons p pto)
  from Cons.prems obtain mid where mid: "update_torsion values p param = Inr mid"
    using update_torsion_succeeds [of "values" p param] by auto
  have al: "alike param mid" using mid by (rule update_torsion_alike)
  have pers: "\<forall>a. \<forall>d\<in>set (term_lists mid a). 1 \<le> per d"
  proof (intro allI ballI)
    fix a d assume "d \<in> set (term_lists mid a)"
    then have "per d \<in> per ` set (term_lists mid a)" by simp
    moreover have "per ` set (term_lists mid a) = per ` set (term_lists param a)"
      using al by (metis alike_def set_map)
    ultimately obtain d0 where "d0 \<in> set (term_lists param a)" and "per d0 = per d" by auto
    then show "1 \<le> per d" using Cons.prems(2) by metis
  qed
  have keys: "\<forall>q\<in>set pto. constructed_latents values q \<and> dihedral_types mid q \<noteq> None"
    using Cons.prems(1) al by (simp add: alike_def)
  from Cons.IH [OF keys pers] obtain param' where
    "update_param values pto mid = Inr param'" "dihedral_types param' = dihedral_types mid"
    "\<forall>a. map per (term_lists param' a) = map per (term_lists mid a)" by blast
  then show ?case using mid al by (simp add: alike_def)
qed

theorem update_param_skips_missing_terms_witness:
  "\<exists>param'. update_param legacy_values [shared_torsion, split_torsion] legacy_param = Inr param' \<and>
      dihedral_types param' = dihedral_types legacy_param \<and>
      map per (term_lists param' 1) = [2, 3] \<and>
      legacy_values ''HGA2_CG321_CG321_CG331_multiplicity_bitstring'' = Some (Disc 1)"
proof -
  have latents: "\<forall>p\<in>set [shared_torsion, split_torsion].
      constructed_latents legacy_values p \<and> dihedral_types legacy_param p \<noteq> None"
    by (simp add: constructed_latents_def legacy_values_def torsion_values_def
        legacy_multiplicities_def legacy_param_def shared_torsion_def split_torsion_def map_add_def)
  have pers: "\<forall>a. \<forall>d\<in>set (term_lists legacy_param a). 1 \<le> per d"
    by (auto simp: legacy_param_def)
  have "map per (term_lists legacy_param 1) = [2, 3]"
    by (simp add: legacy_param_def)
  moreover have "legacy_values ''HGA2_CG321_CG321_CG331_multiplicity_bitstring'' = Some (Disc 1)"
    by (simp add: legacy_values_def torsion_values_def legacy_multiplicities_def map_add_def)
  ultimately show ?thesis
    using update_param_skips_missing_terms [OF latents pers] by auto
qed

text \<open>The claim of the specification fails on the container above: the second torsion has the
  bit of multiplicity 1 set and terms of multiplicity 2 and 3 only, and the call returns the
  synchronised container, in which these two terms are switched off.\<close>

theorem missing_term_is_no_error:
  "update_param legacy_values [shared_torsion, split_torsion] legacy_param = Inr synced_param \<and>
   legacy_values (torsion_name split_torsion @ ''_multiplicity_bitstring'') = Some (Disc 1) \<and>
   (1::int) AND 2 ^ nat (1 - 1) \<noteq> 0 \<and>
   terms_of legacy_param split_torsion =
     Some [\<lparr>per = 2, phi_k = Scalar 0.4, phase = Scalar 0\<rparr>, \<lparr>per = 3, phi_k = Scalar 0.2, phase = Scalar 0\<rparr>] \<and>
   terms_of synced_param split_torsion =
     Some [\<lparr>per = 2, phi_k = Disc 0, phase = Scalar 0\<rparr>, \<lparr>per = 3, phi_k = Disc 0, phase = Scalar 0\<rparr>]"
  using legacy_sync
  by (simp add: legacy_values_def torsion_values_def legacy_multiplicities_def map_add_def
      split_torsion_def terms_of_def legacy_param_def synced_param_def)

subsection \<open>The reverse torsion\<close>

text \<open>\<^verbatim>\<open>update_param\<close> writes through the keys of the optimized torsions only: a list that no
  optimized torsion names is left as it was, also when it is the list of the reverse of an
  optimized torsion.\<close>

lemma reverse_list_untouched:
  assumes "update_param values pto param = Inr param'"
    and "dihedral_types param (reversed t) = Some a"
    and "\<forall>p\<in>set pto. dihedral_types param p \<noteq> Some a"
  shows "terms_of param' (reversed t) = terms_of param (reversed t)"
  using update_param_keys [OF assms(1)] update_param_frame [OF assms(1,3)] assms(2)
  by (simp add: terms_of_def)

text \<open>
  \<^bold>\<open>C5\<close>. The specification has the terms under every optimized torsion and under its reverse
  identical after a call of \<^verbatim>\<open>update_param\<close>, and the test of that method asserts it. In the
  container above the second torsion and its reverse hold a list each, with the same terms.
  The call returns; the terms under the torsion are switched off, those under its reverse are
  as they were, and the two entries differ.
\<close>

theorem reverse_entry_left_behind:
  "update_param legacy_values [shared_torsion, split_torsion] legacy_param = Inr synced_param \<and>
   terms_of legacy_param split_torsion = terms_of legacy_param (reversed split_torsion) \<and>
   terms_of synced_param split_torsion =
     Some [\<lparr>per = 2, phi_k = Disc 0, phase = Scalar 0\<rparr>, \<lparr>per = 3, phi_k = Disc 0, phase = Scalar 0\<rparr>] \<and>
   terms_of synced_param (reversed split_torsion) =
     Some [\<lparr>per = 2, phi_k = Scalar 0.4, phase = Scalar 0\<rparr>, \<lparr>per = 3, phi_k = Scalar 0.2, phase = Scalar 0\<rparr>] \<and>
   terms_of synced_param split_torsion \<noteq> terms_of synced_param (reversed split_torsion)"
  using legacy_sync
  by (simp add: split_torsion_def terms_of_def legacy_param_def synced_param_def)

subsection \<open>Synchronising twice\<close>

text \<open>A second synchronisation with the same latents changes nothing. Two torsions may share a
  list and disagree on a term, so a single pass need not be stable; the whole call is. The
  proof runs the call on two containers with the same periodicities side by side.\<close>

lemma update_term_tracks:
  assumes "update_term values name bs d = Inr d'" and "per e = per d"
  shows "\<exists>e'. update_term values name bs e = Inr e' \<and> tracks d d' e e'"
  using assms
  by (auto simp: update_term_def Let_def tracks_def split: val.splits if_splits sum.splits)

lemma update_terms_tracks:
  assumes "update_terms values name bs ds = Inr ds'" and "map per es = map per ds"
  shows "\<exists>es'. update_terms values name bs es = Inr es' \<and>
           (\<forall>i<length ds. tracks (ds ! i) (ds' ! i) (es ! i) (es' ! i))"
  using assms
proof (induction ds arbitrary: ds' es)
  case Nil
  then show ?case by simp
next
  case (Cons d ds)
  from Cons.prems(2) obtain e es0 where es: "es = e # es0" and pe: "per e = per d"
    and pes: "map per es0 = map per ds"
    by (cases es) auto
  from Cons.prems(1) obtain d1 ds1 where d1: "update_term values name bs d = Inr d1"
    and ds1: "update_terms values name bs ds = Inr ds1" and ds': "ds' = d1 # ds1"
    by (auto split: sum.splits)
  from update_term_tracks [OF d1 pe] obtain e1 where
    e1: "update_term values name bs e = Inr e1" and t1: "tracks d d1 e e1" by blast
  from Cons.IH [OF ds1 pes] obtain es1 where
    es1: "update_terms values name bs es0 = Inr es1"
    and ts: "\<forall>i<length ds. tracks (ds ! i) (ds1 ! i) (es0 ! i) (es1 ! i)" by blast
  have "update_terms values name bs es = Inr (e1 # es1)"
    using es e1 es1 by simp
  moreover have "\<forall>i<length (d # ds). tracks ((d # ds) ! i) (ds' ! i) (es ! i) ((e1 # es1) ! i)"
    using t1 ts es ds' by (auto simp: nth_Cons split: nat.splits)
  ultimately show ?case by blast
qed

lemma tracks_refl: "tracks d d e e"
  by (simp add: tracks_def)

lemma tracks_trans:
  "tracks d d1 e e1 \<Longrightarrow> tracks d1 d2 e1 e2 \<Longrightarrow> tracks d d2 e e2"
  by (auto simp: tracks_def)

lemma update_torsion_tracks:
  assumes "update_torsion values p c = Inr c'" and "alike c e"
  shows "\<exists>e'. update_torsion values p e = Inr e' \<and> tracking c c' e e'"
proof -
  from assms(1) obtain bs a ds where
    bs: "lookup values (torsion_name p @ ''_multiplicity_bitstring'') = Inr bs"
    and a: "dihedral_types c p = Some a"
    and ds: "update_terms values (torsion_name p) bs (term_lists c a) = Inr ds"
    and c': "c' = c\<lparr>term_lists := (term_lists c)(a := ds)\<rparr>"
    by (auto simp: update_torsion_def Let_def split: sum.splits option.splits)
  have pe: "map per (term_lists e a) = map per (term_lists c a)" and ae: "dihedral_types e p = Some a"
    using assms(2) a by (auto simp: alike_def)
  from update_terms_tracks [OF ds pe] obtain es where
    es: "update_terms values (torsion_name p) bs (term_lists e a) = Inr es"
    and ts: "\<forall>i<length (term_lists c a). tracks (term_lists c a ! i) (ds ! i) (term_lists e a ! i) (es ! i)"
    by blast
  have "update_torsion values p e = Inr (e\<lparr>term_lists := (term_lists e)(a := es)\<rparr>)"
    using bs ae es by (simp add: update_torsion_def Let_def)
  moreover have "tracking c c' e (e\<lparr>term_lists := (term_lists e)(a := es)\<rparr>)"
    using ts c' by (auto simp: tracking_def tracks_refl)
  ultimately show ?thesis by blast
qed

lemma alike_length: "alike c e \<Longrightarrow> length (term_lists e a) = length (term_lists c a)"
  by (metis alike_def length_map)

lemma update_param_tracks:
  assumes "update_param values pto c = Inr c'" and "alike c e"
  shows "\<exists>e'. update_param values pto e = Inr e' \<and> tracking c c' e e' \<and> alike c c' \<and> alike e e'"
  using assms
proof (induction pto arbitrary: c e)
  case Nil
  then show ?case by (auto simp: tracking_def tracks_refl alike_def)
next
  case (Cons p pto)
  from Cons.prems(1) obtain c1 where c1: "update_torsion values p c = Inr c1"
    and rest: "update_param values pto c1 = Inr c'"
    by (auto split: sum.splits)
  from update_torsion_tracks [OF c1 Cons.prems(2)] obtain e1 where
    e1: "update_torsion values p e = Inr e1" and t1: "tracking c c1 e e1" by blast
  have a1: "alike c c1" and b1: "alike e e1"
    using c1 e1 by (auto intro: update_torsion_alike)
  have ce1: "alike c1 e1"
    using a1 b1 Cons.prems(2) by (auto simp: alike_def)
  from Cons.IH [OF rest ce1] obtain e' where
    e': "update_param values pto e1 = Inr e'" and t2: "tracking c1 c' e1 e'"
    and a2: "alike c1 c'" and b2: "alike e1 e'" by blast
  have "update_param values (p # pto) e = Inr e'"
    using e1 e' by simp
  moreover have "tracking c c' e e'"
    unfolding tracking_def
  proof (intro allI impI)
    fix a i assume i: "i < length (term_lists c a)"
    have "i < length (term_lists c1 a)" using i alike_length [OF a1, of a] by simp
    with t1 t2 i show "tracks (term_lists c a ! i) (term_lists c' a ! i) (term_lists e a ! i) (term_lists e' a ! i)"
      unfolding tracking_def by (blast intro: tracks_trans)
  qed
  moreover have "alike c c'" "alike e e'"
    using a1 a2 b1 b2 by (auto simp: alike_def)
  ultimately show ?case by blast
qed

lemma update_param_idempotent:
  assumes "update_param values pto c = Inr c'"
  shows "update_param values pto c' = Inr c'"
proof -
  have "alike c c"
    by (simp add: alike_def)
  with update_param_tracks [OF assms] have a0: "alike c c'"
    by blast
  from update_param_tracks [OF assms a0] obtain e' where
    e': "update_param values pto c' = Inr e'" and t: "tracking c c' c' e'"
    and b: "alike c' e'" by blast
  have "term_lists e' a = term_lists c' a" for a
  proof (rule nth_equalityI)
    show "length (term_lists e' a) = length (term_lists c' a)"
      using b by (rule alike_length)
  next
    fix i assume "i < length (term_lists e' a)"
    then have i: "i < length (term_lists c a)"
      using alike_length [OF b, of a] alike_length [OF a0, of a] by simp
    with t have "tracks (term_lists c a ! i) (term_lists c' a ! i) (term_lists c' a ! i) (term_lists e' a ! i)"
      by (simp add: tracking_def)
    then show "term_lists e' a ! i = term_lists c' a ! i"
      by (auto simp: tracks_def intro: dihedral_type.equality)
  qed
  then have "term_lists e' = term_lists c'" by blast
  moreover have "dihedral_types e' = dihedral_types c'"
    using b by (simp add: alike_def)
  ultimately have "e' = c'" by (simp add: param_set.equality)
  with e' show ?thesis by simp
qed

lemma mm_potential_again:
  assumes "mm_potential compute_energy mm_energy values pto (param, fs) = Inr (v, param', fs')"
    and "\<forall>f. compute_energy param' (compute_energy param' f) = compute_energy param' f"
  shows "mm_potential compute_energy mm_energy values pto (param', fs') = Inr (v, param', fs')"
proof -
  from assms(1) have up: "update_param values pto param = Inr param'"
    and fs': "fs' = map (compute_energy param') fs"
    and v: "v = concat (map mm_energy fs')"
    by (auto simp: mm_potential_def Let_def split: sum.splits)
  have "update_param values pto param' = Inr param'"
    using up by (rule update_param_idempotent)
  moreover have "map (compute_energy param') fs' = fs'"
    using assms(2) fs' by simp
  ultimately show ?thesis
    using v by (simp add: mm_potential_def)
qed

text \<open>
  \<^bold>\<open>C7\<close>, as the code has it. \<^verbatim>\<open>torsion_energy\<close> of the hierarchical model is a function of
  the latents it looks up and of the caches fixed at construction: it writes nothing, and any
  two dictionaries that agree on those latents give the same vector. \<^verbatim>\<open>mm_potential\<close> of the
  legacy model does write: it pushes the latents into the container and has every fragment
  store its energies. These writes repeat: when an evaluation returns and the energy
  computation of the fragments is itself repeatable, a second evaluation with the same latents
  returns the same vector and leaves the container and the fragments as the first left them.
\<close>

theorem energy_evaluations_repeat:
  "((\<forall>k\<in>set (latents_read self). ps k = ps' k) \<longrightarrow> torsion_energy self ps = torsion_energy self ps') \<and>
   (mm_potential compute_energy mm_energy values pto (param, fs) = Inr (v, param', fs') \<and>
      (\<forall>f. compute_energy param' (compute_energy param' f) = compute_energy param' f) \<longrightarrow>
    mm_potential compute_energy mm_energy values pto (param', fs') = Inr (v, param', fs'))"
  using torsion_energy_agree [of self ps ps'] mm_potential_again [of compute_energy mm_energy "values" pto param fs v param' fs']
  by blast

lemma first_evaluation:
  "mm_potential stored_energy (\<lambda>f. f) legacy_values [shared_torsion, split_torsion]
     (legacy_param, [[]]) = Inr ([7 / 10, 3 / 10], synced_param, [[7 / 10, 3 / 10]])"
  unfolding mm_potential_def fst_conv snd_conv legacy_sync
  by (simp add: stored_energy_def synced_param_def)

theorem energy_evaluations_repeat_witness:
  "torsion_energy scan_model (scan_values(''log_sigma'' \<mapsto> Scalar 1)) = Inr [6, 2] \<and>
   mm_potential stored_energy (\<lambda>f. f) legacy_values [shared_torsion, split_torsion]
     (synced_param, [[7 / 10, 3 / 10]]) = Inr ([7 / 10, 3 / 10], synced_param, [[7 / 10, 3 / 10]])"
proof -
  have same: "\<forall>k\<in>set (latents_read scan_model). scan_values k = (scan_values(''log_sigma'' \<mapsto> Scalar 1)) k"
    by (simp add: latents_read_def scan_model_def scan_fragment_def prl_torsion_def)
  have result: "torsion_energy scan_model scan_values = Inr [6, 2]"
    by (simp add: torsion_energy_def scan_model_def scan_values_def scan_fragment_def
        prl_torsion_def get_K_def lookup_def row_sums_def iadd_def numeral_2_eq_2)
  have again: "\<forall>f. stored_energy synced_param (stored_energy synced_param f) = stored_energy synced_param f"
    by (simp add: stored_energy_def)
  show ?thesis
    using energy_evaluations_repeat [of scan_model scan_values "scan_values(''log_sigma'' \<mapsto> Scalar 1)"
        stored_energy "\<lambda>f. f" legacy_values "[shared_torsion, split_torsion]" legacy_param "[[]]"
        "[7 / 10, 3 / 10]" synced_param "[[7 / 10, 3 / 10]]"]
      same result again first_evaluation
    by simp
qed

text \<open>The claim of the specification fails on the legacy model: the first evaluation on the
  container above returns with the synchronised container and a fragment that stores new
  energies, and the terms of the first torsion are no longer those the call found.\<close>

theorem evaluation_writes_container:
  "mm_potential stored_energy (\<lambda>f. f) legacy_values [shared_torsion, split_torsion]
     (legacy_param, [[]]) = Inr ([7 / 10, 3 / 10], synced_param, [[7 / 10, 3 / 10]]) \<and>
   terms_of synced_param shared_torsion \<noteq> terms_of legacy_param shared_torsion"
  using first_evaluation
  by (simp add: terms_of_def synced_param_def legacy_param_def shared_torsion_def split_torsion_def)

section \<open>Construction of the hierarchical model\<close>

subsection \<open>The latent dictionary, key by key\<close>









lemma multiplicity_bitstrings_names:
  "fst ` set (multiplicity_bitstrings pto mb) = fst ` set mb \<union> torsion_name ` set pto"
  by (induction pto arbitrary: mb) auto

lemma multiplicity_bitstrings_zero:
  "snd ` set mb \<subseteq> {0} \<Longrightarrow> snd ` set (multiplicity_bitstrings pto mb) \<subseteq> {0}"
  by (induction pto arbitrary: mb) auto

lemma add_bitstrings_lookup:
  assumes "snd ` set mb \<subseteq> {0}"
  shows "add_bitstrings mb P k =
     (if k \<in> (\<lambda>n. n @ ''_multiplicity_bitstring'') ` fst ` set mb
      then Some (DiscreteUniform 0 63 (Disc 0)) else P k)"
  using assms unfolding add_bitstrings_def
  by (induction mb arbitrary: P) (auto split: prod.splits)

lemma bitstrings_lookup:
  "add_bitstrings (multiplicity_bitstrings pto []) P k =
     (if k \<in> (\<lambda>p. torsion_name p @ ''_multiplicity_bitstring'') ` set pto
      then Some (DiscreteUniform 0 63 (Disc 0)) else P k)"
proof -
  have "snd ` set (multiplicity_bitstrings pto []) \<subseteq> {0}"
    by (rule multiplicity_bitstrings_zero) simp
  then show ?thesis
    by (simp add: add_bitstrings_lookup multiplicity_bitstrings_names image_image)
qed

lemma latent_bitstring:
  assumes "rj'" and "p \<in> set pto"
  shows "latent_parameters fs pto rj' (torsion_name p @ ''_multiplicity_bitstring'') =
           Some (DiscreteUniform 0 63 (Disc 0))"
  using assms by (simp add: latent_parameters_def Let_def bitstrings_lookup)



text \<open>The dictionary of the model: the five fixed names, then the latents, drawn or not.\<close>

lemma build_parameters_apply:
  "build_parameters draw fs pto rj' init_random k =
     (if k = ''qm_fit''
      then Some (Observed ''torsion_energy'' ''precision''
                   (sum_list (map (\<lambda>frag. length (qm_energy frag)) fs)) (concat (map delta_energy fs)))
      else if k = ''torsion_energy'' then Some Deterministic
      else if k = ''precision'' then Some (Lambda ExpNeg2 ''log_sigma'')
      else if k = ''sigma'' then Some (Lambda Exp ''log_sigma'')
      else if k = ''log_sigma'' then Some (Uniform (- 10) 3 (Scalar (ln 0.01)))
      else if init_random then randomize draw (latent_parameters fs pto rj') k
      else latent_parameters fs pto rj' k)"
  by (simp add: build_parameters_def sampled_parameters_def add_globals_def)




subsection \<open>What the constructor returns\<close>




text \<open>Rows 0 and 7 of the table, as the energy function reads them at construction.\<close>

lemma bitmask_0: "py_index bitmask_table 0 = Inr [0, 0, 0, 0, 0, 0]"
  by code_simp







subsection \<open>Random initialisation\<close>






subsection \<open>The starting bitstring\<close>

text \<open>With reversible jump on and random initialisation off, the bitstring of every optimized
  torsion is 0; the constructor does not read the container for it.\<close>

lemma bitstring_default:
  assumes "p \<in> set pto"
  shows "build_parameters draw fs pto True False (torsion_name p @ ''_multiplicity_bitstring'') =
           Some (DiscreteUniform 0 63 (Disc 0))"
proof -
  have "last (torsion_name p @ ''_multiplicity_bitstring'') = CHR ''g''"
    by simp
  then have "torsion_name p @ ''_multiplicity_bitstring'' \<notin>
      {''qm_fit'', ''torsion_energy'', ''precision'', ''sigma'', ''log_sigma''}"
    by (auto dest: arg_cong [where f = last])
  then show ?thesis
    using latent_bitstring [OF _ assms, of True fs]
    by (auto simp: build_parameters_apply)
qed

text \<open>The constructor returns for the scan over the first torsion of the container.\<close>

lemma og_nodes:
  "build_nodes og_model
     (sampled_parameters draw_seven [og_fragment] [shared_torsion] True False)
     (delta_energy og_fragment) = Inr [0, 0]"
  by (simp add: build_nodes_def torsion_energy_def og_model_def current_values_def
      sampled_parameters_def add_globals_def latent_parameters_def add_offsets_def
      torsion_latents_def add_bitstrings_def get_K_def lookup_def shared_torsion_def
      row_sums_def iadd_def vec_mul_def bitmask_0 numeral_eq_Suc og_fragment_def Let_def)

lemma og_cosines:
  "build_cosines [og_fragment] =
     [[((''OG311'', ''CG321'', ''CG321'', ''CG331''), [[2, 2, 2, 2, 2, 2], [0, 2, 0, 2, 0, 2]])]]"
  by (simp add: build_cosines_def cosine_basis_def og_fragment_def)

lemma og_model_built:
  "init no_torsions keep_phases draw_seven legacy_param [og_fragment] None ()
     (Some [shared_torsion]) True False False True False = Inr (og_model, legacy_param, [])"
  using og_nodes
  by (simp add: init_def choose_torsions_def keep_phases_def Let_def og_cosines
      shared_torsion_def og_model_def [symmetric])

text \<open>
  \<^bold>\<open>C6\<close>. The specification has the bitstring latent start at the bitstring of the
  multiplicities that the starting parameter set holds with a nonzero force constant. The
  container above holds, for its first torsion, the multiplicities 2 and 5 with nonzero force
  constants, which is the bitstring 18. The hierarchical model built from it for a scan over
  that torsion, with reversible jump on and random initialisation off, starts the latent at 0.
  The legacy constructor does read the container, and starts at 2: it counts the multiplicity
  2 and knows no multiplicity 5.
\<close>

theorem bitstring_ignores_parameter_set:
  "init no_torsions keep_phases draw_seven legacy_param [og_fragment] None ()
     (Some [shared_torsion]) True False False True False = Inr (og_model, legacy_param, []) \<and>
   pymc_parameters og_model ''OG311_CG321_CG321_CG331_multiplicity_bitstring'' =
     Some (DiscreteUniform 0 63 (Disc 0)) \<and>
   terms_of legacy_param shared_torsion =
     Some [\<lparr>per = 2, phi_k = Scalar 1.5, phase = Scalar 0\<rparr>,
           \<lparr>per = 5, phi_k = Scalar 0.3, phase = Scalar 0\<rparr>] \<and>
   map_option spec_initial_bitstring (terms_of legacy_param shared_torsion) = Some 18 \<and>
   map_sum id (\<lambda>mb. mb ''OG311_CG321_CG321_CG331'')
     (legacy_multiplicity_bitstrings legacy_param [shared_torsion] Map.empty) = Inr (Some 2)"
proof -
  have "shared_torsion \<in> set [shared_torsion]"
    by simp
  from bitstring_default [OF this, of draw_seven "[og_fragment]"]
  have "pymc_parameters og_model ''OG311_CG321_CG321_CG331_multiplicity_bitstring'' =
          Some (DiscreteUniform 0 63 (Disc 0))"
    by (simp add: shared_torsion_def og_model_def)
  moreover have "terms_of legacy_param shared_torsion =
     Some [\<lparr>per = 2, phi_k = Scalar 1.5, phase = Scalar 0\<rparr>,
           \<lparr>per = 5, phi_k = Scalar 0.3, phase = Scalar 0\<rparr>]"
    by (simp add: terms_of_def legacy_param_def shared_torsion_def split_torsion_def)
  moreover have "spec_initial_bitstring
     [\<lparr>per = 2, phi_k = Scalar 1.5, phase = Scalar 0\<rparr>,
      \<lparr>per = 5, phi_k = Scalar 0.3, phase = Scalar 0\<rparr>] = 18"
    by (simp add: spec_initial_bitstring_def nonzero_def)
  moreover have "legacy_multiplicity_bitstrings legacy_param [shared_torsion] Map.empty =
      Inr [''OG311_CG321_CG321_CG331'' \<mapsto> 2]"
    by (simp add: legacy_param_def shared_torsion_def split_torsion_def legacy_multiplicities_def)
  ultimately show ?thesis
    using og_model_built by simp
qed

end
